theory Spec2Isabelle
  imports Complex_Main "HOL-Library.Word" "HOL-Library.Sublist"
begin

unbundle bit_operations_syntax

section \<open>Python values and exceptions\<close>

text \<open>
  Exceptions by where they are raised. A \<open>foreign_exc\<close> is raised by code outside the two
  modules (the client library, \<open>json\<close>, a \<open>hex\<close> method of a response value): a
  \<open>TypeError\<close> with its message, or an exception of any class that is not \<open>TypeError\<close> nor a
  subclass of it (class name and message). A \<open>pyexc\<close> is what a function of the two modules
  can leave with: a foreign exception passing through, the \<open>RPCConnectionError\<close> of
  \<open>EVMClient.__init__\<close>, the \<open>AssertionError\<close> at the end of \<open>run_cli\<close>, or the
  \<open>SystemExit\<close> of the argument parser.
\<close>

datatype foreign_exc =
    TypeError string
  | OtherError string string

datatype pyexc =
    Foreign foreign_exc
  | RPCConnectionError string
  | AssertionError string
  | SystemExit int

text \<open>
  The values \<open>_normalise\<close> can meet. A float is its IEEE-754 binary64 bit pattern, a byte
  sequence a list of octets. \<open>PDict\<close> is a plain \<open>dict\<close> and \<open>PAttrDict\<close> the library's
  \<open>AttributeDict\<close>, both as association lists in insertion order (keys are distinct in
  either). \<open>PObject\<close> is an instance of any other class, with its identity and what its
  attribute \<open>hex\<close> is: absent, a non-callable value, a method that returns a value, or a
  method that raises.
\<close>

datatype pyval =
    PNone
  | PBool bool
  | PInt int
  | PFloat "64 word"
  | PStr string
  | PBytes "8 word list"
  | PList "pyval list"
  | PTuple "pyval list"
  | PDict "(pyval \<times> pyval) list"
  | PAttrDict "(pyval \<times> pyval) list"
  | PObject nat hexattr
and hexattr =
    NoHex
  | HexField pyval
  | HexReturns pyval
  | HexRaises foreign_exc

section \<open>The built-in hex methods\<close>

definition hexdigit :: "nat \<Rightarrow> char" where
  "hexdigit n = ''0123456789abcdef'' ! (n mod 16)"

definition byte_hex :: "8 word \<Rightarrow> string" where
  "byte_hex b = [hexdigit (unat b div 16), hexdigit (unat b mod 16)]"

text \<open>\<open>bytes.hex()\<close>: two lowercase hexadecimal digits for each octet, in order.\<close>

definition bytes_hex :: "8 word list \<Rightarrow> string" where
  "bytes_hex bs = concat (map byte_hex bs)"

definition digit_char :: "nat \<Rightarrow> char" where
  "digit_char n = ''0123456789'' ! (n mod 10)"

text \<open>\<open>str\<close> of a non-negative and of any integer: decimal digits, a minus sign first.\<close>

fun str_nat :: "nat \<Rightarrow> string" where
  "str_nat n = (if n < 10 then [digit_char n] else str_nat (n div 10) @ [digit_char (n mod 10)])"

definition str_int :: "int \<Rightarrow> string" where
  "str_int i = (if i < 0 then ''-'' @ str_nat (nat (- i)) else str_nat (nat i))"

definition hex13 :: "nat \<Rightarrow> string" where
  "hex13 m = map (\<lambda>i. hexdigit (m div 16 ^ (12 - i))) [0..<13]"

text \<open>
  \<open>float.hex()\<close> on the bit pattern: \<open>nan\<close> and the infinities print as \<open>repr\<close> does, a zero
  as \<open>0x0.0p+0\<close>, every other value as its leading bit, the 52 fraction bits as thirteen
  hexadecimal digits, and the binary exponent in decimal with its sign.
\<close>

definition float_hex :: "64 word \<Rightarrow> string" where
  "float_hex w =
     (let neg = bit w 63;
          e = unat (drop_bit 52 w AND 0x7FF);
          m = unat (w AND 0xFFFFFFFFFFFFF);
          x = (if e = 0 then - 1022 else int e - 1023)
      in if e = 2047 then (if m \<noteq> 0 then ''nan'' else if neg then ''-inf'' else ''inf'')
         else (if neg then ''-'' else '''') @
              (if e = 0 \<and> m = 0 then ''0x0.0p+0''
               else ''0x'' @ (if e = 0 then ''0'' else ''1'') @ ''.'' @ hex13 m @ ''p'' @
                    (if x < 0 then ''-'' else ''+'') @ str_nat (nat \<bar>x\<bar>)))"

section \<open>Result normalisation (evm\_cli.\_normalise)\<close>

text \<open>
  What \<open>hasattr(value, "hex") and callable(getattr(value, "hex"))\<close> finds, and what calling
  it gives: \<open>None\<close> when there is no callable \<open>hex\<close>, otherwise the outcome of
  \<open>value.hex()\<close>. Among the built-in types only \<open>bytes\<close> and \<open>float\<close> have the method.
\<close>

fun call_hex :: "pyval \<Rightarrow> (foreign_exc + pyval) option" where
  "call_hex (PBytes bs) = Some (Inr (PStr (bytes_hex bs)))"
| "call_hex (PFloat w) = Some (Inr (PStr (float_hex w)))"
| "call_hex (PObject i (HexReturns r)) = Some (Inr r)"
| "call_hex (PObject i (HexRaises e)) = Some (Inl e)"
| "call_hex v = None"

fun is_TypeError :: "foreign_exc \<Rightarrow> bool" where
  "is_TypeError (TypeError m) = True"
| "is_TypeError e = False"

text \<open>
  The last two statements of \<open>_normalise\<close>: the duck-typed probe, the \<open>try\<close> around the
  call with its \<open>except TypeError: pass\<close>, and the final \<open>return value\<close>.
\<close>

definition hex_or_self :: "pyval \<Rightarrow> foreign_exc + pyval" where
  "hex_or_self v =
     (case call_hex v of
        None \<Rightarrow> Inr v
      | Some (Inr r) \<Rightarrow> Inr r
      | Some (Inl e) \<Rightarrow> if is_TypeError e then Inr v else Inl e)"

text \<open>
  \<open>_normalise\<close>, one equation for each \<open>isinstance\<close> test in the order of the source; the
  comprehensions over the items of an \<open>AttributeDict\<close> and over the elements of a list or
  tuple are \<open>normalise_items\<close> and \<open>normalise_seq\<close>, which stop at the first element whose
  normalisation raises.
\<close>

fun normalise :: "pyval \<Rightarrow> foreign_exc + pyval"
and normalise_items :: "(pyval \<times> pyval) list \<Rightarrow> foreign_exc + (pyval \<times> pyval) list"
and normalise_seq :: "pyval list \<Rightarrow> foreign_exc + pyval list" where
  "normalise (PAttrDict kvs) =
     (case normalise_items kvs of Inl e \<Rightarrow> Inl e | Inr r \<Rightarrow> Inr (PDict r))"
| "normalise (PList xs) =
     (case normalise_seq xs of Inl e \<Rightarrow> Inl e | Inr r \<Rightarrow> Inr (PList r))"
| "normalise (PTuple xs) =
     (case normalise_seq xs of Inl e \<Rightarrow> Inl e | Inr r \<Rightarrow> Inr (PTuple r))"
| "normalise (PBytes bs) = Inr (PStr (bytes_hex bs))"
| "normalise v = hex_or_self v"
| "normalise_items [] = Inr []"
| "normalise_items ((k, v) # kvs) =
     (case normalise v of
        Inl e \<Rightarrow> Inl e
      | Inr v' \<Rightarrow> (case normalise_items kvs of Inl e \<Rightarrow> Inl e | Inr r \<Rightarrow> Inr ((k, v') # r)))"
| "normalise_seq [] = Inr []"
| "normalise_seq (x # xs) =
     (case normalise x of
        Inl e \<Rightarrow> Inl e
      | Inr x' \<Rightarrow> (case normalise_seq xs of Inl e \<Rightarrow> Inl e | Inr r \<Rightarrow> Inr (x' # r)))"

text \<open>
  A value is \<open>hex_stable\<close> when every \<open>hex\<close> method that the walk over lists and tuples
  calls on an object returns a value that normalisation leaves as it is (a string, for
  one). Values built without such objects are all stable.
\<close>

fun hex_stable :: "pyval \<Rightarrow> bool"
and hex_stable_seq :: "pyval list \<Rightarrow> bool" where
  "hex_stable (PList xs) = hex_stable_seq xs"
| "hex_stable (PTuple xs) = hex_stable_seq xs"
| "hex_stable (PObject i (HexReturns r)) = (normalise r = Inr r)"
| "hex_stable v = True"
| "hex_stable_seq [] = True"
| "hex_stable_seq (x # xs) = (hex_stable x \<and> hex_stable_seq xs)"

text \<open>Reading lowercase hexadecimal text back into octets, two digits for each.\<close>

definition hexval :: "char \<Rightarrow> nat option" where
  "hexval = map_of (zip ''0123456789abcdef'' [0..<16])"

fun unhex :: "string \<Rightarrow> 8 word list option" where
  "unhex [] = Some []"
| "unhex [c] = None"
| "unhex (a # b # cs) =
     (case (hexval a, hexval b, unhex cs) of
        (Some h, Some l, Some r) \<Rightarrow> Some (of_nat (16 * h + l) # r)
      | _ \<Rightarrow> None)"

section \<open>Parameter decoding (evm\_cli.\_load\_params)\<close>

text \<open>
  \<open>json.loads\<close> is the parameter \<open>loads\<close>: \<open>Some\<close> of the decoded value, or \<open>None\<close> where
  it raises \<open>JSONDecodeError\<close>. The loop appends to \<open>parsed\<close> in the order of \<open>params\<close>.
\<close>

fun load_params_loop :: "(string \<Rightarrow> pyval option) \<Rightarrow> pyval list \<Rightarrow> string list \<Rightarrow> pyval list" where
  "load_params_loop loads parsed [] = parsed"
| "load_params_loop loads parsed (v # vs) =
     load_params_loop loads
       (parsed @ [case loads v of Some j \<Rightarrow> j | None \<Rightarrow> PStr v]) vs"

definition load_params :: "(string \<Rightarrow> pyval option) \<Rightarrow> string list \<Rightarrow> pyval list" where
  "load_params loads params = load_params_loop loads [] params"

section \<open>The client library\<close>

subsection \<open>Decimal amounts\<close>

text \<open>
  A decimal number is an integer coefficient and a power of ten; \<open>dec_value\<close> is the
  rational number it stands for.
\<close>

record decimal =
  coefficient :: int
  exponent :: int

definition dec_value :: "decimal \<Rightarrow> rat" where
  "dec_value d =
     (if 0 \<le> exponent d then of_int (coefficient d * 10 ^ nat (exponent d))
      else of_int (coefficient d) / of_int (10 ^ nat (- exponent d)))"

function strip_zeros :: "int \<Rightarrow> int \<Rightarrow> int \<times> int" where
  "strip_zeros c e =
     (if e < 0 \<and> c mod 10 = 0 then strip_zeros (c div 10) (e + 1) else (c, e))"
  by pat_completeness auto
termination
  by (relation "measure (\<lambda>(c, e). nat (- e))") auto

text \<open>
  Modelled from the spec: the library's conversion of a base-unit amount to a decimal
  (\<open>from_wei\<close> with unit \<open>ether\<close>) is not in the repository. The spec has it as the
  conversion at the chain's fixed scale, equal to wei / 10^18 exactly: the amount with
  exponent -18, written with as few decimal places as the exact quotient needs.
\<close>

definition from_wei :: "int \<Rightarrow> decimal" where
  "from_wei number =
     (case strip_zeros number (- 18) of (c, e) \<Rightarrow> \<lparr>coefficient = c, exponent = e\<rparr>)"

subsection \<open>Checksummed addresses\<close>

definition to_lower :: "char \<Rightarrow> char" where
  "to_lower c = (case map_of (zip ''ABCDEF'' ''abcdef'') c of Some d \<Rightarrow> d | None \<Rightarrow> c)"

definition to_upper :: "char \<Rightarrow> char" where
  "to_upper c = (case map_of (zip ''abcdef'' ''ABCDEF'') c of Some d \<Rightarrow> d | None \<Rightarrow> c)"

definition remove_0x_prefix :: "string \<Rightarrow> string" where
  "remove_0x_prefix a = (if take 2 a = ''0x'' \<or> take 2 a = ''0X'' then drop 2 a else a)"

text \<open>A valid address: forty hexadecimal digits in any casing, with or without \<open>0x\<close>.\<close>

definition is_hex_address :: "string \<Rightarrow> bool" where
  "is_hex_address a =
     (length (remove_0x_prefix a) = 40 \<and>
      list_all (\<lambda>c. c \<in> set ''0123456789abcdefABCDEF'') (remove_0x_prefix a))"

definition nibble :: "nat list \<Rightarrow> nat \<Rightarrow> nat" where
  "nibble h i = (if i < length h then h ! i else 0)"

text \<open>
  Modelled from the spec: the library's \<open>to_checksum_address\<close> is not in the repository.
  The spec has it as a fixed, standard case-folding transformation keyed by the address
  hash, failing with an invalid-address error on a malformed address: the forty digits
  in lowercase, each letter in uppercase where the hexadecimal digit of the hash at its
  position is 8 or more, after the prefix \<open>0x\<close>. The hash of the lowercase digits is the
  parameter \<open>h\<close>, as a list of hexadecimal digits.
\<close>

definition to_checksum_address :: "(string \<Rightarrow> nat list) \<Rightarrow> string \<Rightarrow> foreign_exc + string" where
  "to_checksum_address h a =
     (if \<not> is_hex_address a then Inl (OtherError ''InvalidAddress'' a)
      else let norm = map to_lower (remove_0x_prefix a);
               address_hash = h norm
           in Inr (''0x'' @ map (\<lambda>i. if 8 \<le> nibble address_hash i then to_upper (norm ! i)
                                       else norm ! i) [0..<40]))"

subsection \<open>The connection handle\<close>

text \<open>
  What the client wrapper uses of a \<open>Web3\<close> instance: the liveness probe, the \<open>eth\<close>
  queries, the generic blocking request and the hash behind address checksumming. Each
  query returns its value or raises.
\<close>

record web3_api =
  is_connected :: bool
  eth_chain_id :: "foreign_exc + int"
  eth_block_number :: "foreign_exc + int"
  eth_get_balance :: "string \<Rightarrow> string \<Rightarrow> foreign_exc + int"
  eth_get_transaction_count :: "string \<Rightarrow> string \<Rightarrow> foreign_exc + int"
  request_blocking :: "string \<Rightarrow> pyval list \<Rightarrow> foreign_exc + pyval"
  keccak :: "string \<Rightarrow> nat list"

text \<open>
  The surroundings of the program: \<open>Web3(HTTPProvider(url, request_kwargs))\<close>, the \<open>json\<close>
  module and \<open>str\<close> of a decimal.
\<close>

record env =
  http_provider :: "string \<Rightarrow> (string \<times> int) list \<Rightarrow> web3_api"
  json_loads :: "string \<Rightarrow> pyval option"
  json_dumps :: "pyval \<Rightarrow> foreign_exc + string"
  str_decimal :: "decimal \<Rightarrow> string"

section \<open>The client wrapper (evm\_client.client)\<close>

definition exc_bind :: "'e + 'a \<Rightarrow> ('a \<Rightarrow> 'e + 'b) \<Rightarrow> 'e + 'b" where
  "exc_bind m f = (case m of Inl e \<Rightarrow> Inl e | Inr x \<Rightarrow> f x)"

definition foreign :: "foreign_exc + 'a \<Rightarrow> pyexc + 'a" where
  "foreign m = (case m of Inl e \<Rightarrow> Inl (Foreign e) | Inr x \<Rightarrow> Inr x)"

text \<open>An outcome that, when it is an exception, is one raised outside the two modules.\<close>

definition raises_only_foreign :: "pyexc + 'a \<Rightarrow> bool" where
  "raises_only_foreign m = (case m of Inl (Foreign f) \<Rightarrow> True | Inl _ \<Rightarrow> False | Inr x \<Rightarrow> True)"

record balance =
  wei :: int
  ether :: decimal

record evmclient =
  web3 :: web3_api

definition EVMClient_init :: "env \<Rightarrow> string \<Rightarrow> int option \<Rightarrow> pyexc + evmclient" where
  "EVMClient_init ev endpoint_url timeout =
     (let request_kwargs = (case timeout of None \<Rightarrow> [] | Some t \<Rightarrow> [(''timeout'', t)]);
          w = http_provider ev endpoint_url request_kwargs
      in if \<not> is_connected w
         then Inl (RPCConnectionError
           ''Unable to connect to the RPC endpoint. Check the URL and network connectivity.'')
         else Inr \<lparr>web3 = w\<rparr>)"

definition chain_id :: "evmclient \<Rightarrow> foreign_exc + int" where
  "chain_id self = eth_chain_id (web3 self)"

definition block_number :: "evmclient \<Rightarrow> foreign_exc + int" where
  "block_number self = eth_block_number (web3 self)"

definition get_balance :: "evmclient \<Rightarrow> string \<Rightarrow> string \<Rightarrow> foreign_exc + balance" where
  "get_balance self address block_identifier =
     exc_bind (to_checksum_address (keccak (web3 self)) address) (\<lambda>checksum.
     exc_bind (eth_get_balance (web3 self) checksum block_identifier) (\<lambda>wei_balance.
     Inr \<lparr>wei = wei_balance, ether = from_wei wei_balance\<rparr>))"

definition get_transaction_count :: "evmclient \<Rightarrow> string \<Rightarrow> string \<Rightarrow> foreign_exc + int" where
  "get_transaction_count self address block_identifier =
     exc_bind (to_checksum_address (keccak (web3 self)) address) (\<lambda>checksum.
     eth_get_transaction_count (web3 self) checksum block_identifier)"

definition call_method :: "evmclient \<Rightarrow> string \<Rightarrow> pyval list \<Rightarrow> foreign_exc + pyval" where
  "call_method self name params = request_blocking (web3 self) name params"

section \<open>The command line (evm\_cli)\<close>

subsection \<open>Argument parsing (parse\_args)\<close>

text \<open>
  The namespace \<open>parse_args\<close> returns: \<open>endpoint\<close> and \<open>command\<close> always, the other
  attributes only when the chosen sub-parser declares them (\<open>method_name\<close> is the
  attribute \<open>method\<close>).
\<close>

record namespace =
  endpoint :: string
  command :: string
  address :: "string option"
  block_identifier :: "string option"
  method_name :: "string option"
  params :: "string list option"

text \<open>The names registered with \<open>subparsers.add_parser\<close>, in the order of the source.\<close>

definition subcommands :: "string list" where
  "subcommands = [''info'', ''balance'', ''tx-count'', ''call'']"

text \<open>
  How \<open>argparse\<close> reads one argument string, for a parser that has \<open>-h\<close>/\<open>--help\<close> and,
  when \<open>has_block\<close>, the option \<open>--block\<close>: a long option may be abbreviated to a prefix
  and may carry its value after \<open>=\<close>; a string that starts with \<open>-\<close> and is no option of
  the parser is a positional when it looks like a negative number or holds a space, and
  an unrecognised option otherwise. The separator \<open>--\<close> and a cluster of short options
  such as \<open>-hx\<close> are not modelled and count as unrecognised.
\<close>

datatype token =
    Positional
  | HelpOption
  | BlockOption "string option"
  | BadOption
  | UnknownOption

definition is_digit :: "char \<Rightarrow> bool" where
  "is_digit c = (c \<in> set ''0123456789'')"

definition negative_number :: "string \<Rightarrow> bool" where
  "negative_number t =
     (case t of
        [] \<Rightarrow> False
      | c # r \<Rightarrow>
          c = CHR ''-'' \<and>
          ((r \<noteq> [] \<and> list_all is_digit r) \<or>
           (case dropWhile is_digit r of
              [] \<Rightarrow> False
            | d # f \<Rightarrow> d = CHR ''.'' \<and> f \<noteq> [] \<and> list_all is_digit f)))"

definition classify :: "bool \<Rightarrow> string \<Rightarrow> token" where
  "classify has_block t =
     (let p = takeWhile (\<lambda>c. c \<noteq> CHR ''='') t;
          has_eq = (CHR ''='' \<in> set t);
          arg = drop (length p + 1) t
      in if t = [] \<or> hd t \<noteq> CHR ''-'' \<or> t = ''-'' then Positional
         else if t = ''-h'' then HelpOption
         else if take 2 t = ''--'' \<and> 2 < length p \<and> prefix p ''--help''
           then (if has_eq then BadOption else HelpOption)
         else if has_block \<and> take 2 t = ''--'' \<and> 2 < length p \<and> prefix p ''--block''
           then BlockOption (if has_eq then Some arg else None)
         else if negative_number t \<or> CHR '' '' \<in> set t then Positional
         else UnknownOption)"

text \<open>
  One pass of a sub-parser over its argument strings: the positionals in order, the last
  value given for \<open>--block\<close>, and whether a string was left unrecognised. Help leaves with
  status 0 where it stands; an option that lacks its value leaves with status 2.
\<close>

record scanned =
  positionals :: "string list"
  block :: string
  unrecognised :: bool

fun scan_args :: "bool \<Rightarrow> string list \<Rightarrow> scanned \<Rightarrow> pyexc + scanned" where
  "scan_args hb [] a = Inr a"
| "scan_args hb (t # ts) a =
     (case classify hb t of
        Positional \<Rightarrow> scan_args hb ts (a\<lparr>positionals := positionals a @ [t]\<rparr>)
      | HelpOption \<Rightarrow> Inl (SystemExit 0)
      | BadOption \<Rightarrow> Inl (SystemExit 2)
      | UnknownOption \<Rightarrow> scan_args hb ts (a\<lparr>unrecognised := True\<rparr>)
      | BlockOption (Some v) \<Rightarrow> scan_args hb ts (a\<lparr>block := v\<rparr>)
      | BlockOption None \<Rightarrow>
          (case ts of
             [] \<Rightarrow> Inl (SystemExit 2)
           | v # ts' \<Rightarrow>
               if classify hb v = Positional then scan_args hb ts' (a\<lparr>block := v\<rparr>)
               else Inl (SystemExit 2)))"

text \<open>
  The sub-parser chosen by \<open>name\<close> on the strings after it. \<open>bad\<close> says that the main
  parser already met an unrecognised option, which \<open>parse_args\<close> reports at the end.
\<close>

definition parse_sub :: "string \<Rightarrow> bool \<Rightarrow> string \<Rightarrow> string list \<Rightarrow> pyexc + namespace" where
  "parse_sub ep bad name rest =
     (let ns = \<lparr>endpoint = ep, command = name, address = None, block_identifier = None,
                method_name = None, params = None\<rparr>;
          start = \<lparr>positionals = [], block = ''latest'', unrecognised = bad\<rparr>
      in if name = ''info'' then
           (case scan_args False rest start of
              Inl e \<Rightarrow> Inl e
            | Inr a \<Rightarrow>
                if positionals a = [] \<and> \<not> unrecognised a then Inr ns
                else Inl (SystemExit 2))
         else if name = ''balance'' \<or> name = ''tx-count'' then
           (case scan_args True rest start of
              Inl e \<Rightarrow> Inl e
            | Inr a \<Rightarrow>
                (case positionals a of
                   [addr] \<Rightarrow>
                     if unrecognised a then Inl (SystemExit 2)
                     else Inr (ns\<lparr>address := Some addr, block_identifier := Some (block a)\<rparr>)
                 | _ \<Rightarrow> Inl (SystemExit 2)))
         else if name = ''call'' then
           (case scan_args False rest start of
              Inl e \<Rightarrow> Inl e
            | Inr a \<Rightarrow>
                (case positionals a of
                   [] \<Rightarrow> Inl (SystemExit 2)
                 | m # ps \<Rightarrow>
                     if unrecognised a then Inl (SystemExit 2)
                     else Inr (ns\<lparr>method_name := Some m, params := Some ps\<rparr>)))
         else Inl (SystemExit 2))"

text \<open>
  The main parser: the first positional is \<open>endpoint\<close>, the second is the required
  \<open>command\<close>, rejected unless it is a registered name, and what follows it goes to that
  sub-parser.
\<close>

fun parse_main :: "string option \<Rightarrow> bool \<Rightarrow> string list \<Rightarrow> pyexc + namespace" where
  "parse_main ep bad [] = Inl (SystemExit 2)"
| "parse_main ep bad (t # ts) =
     (case classify False t of
        Positional \<Rightarrow>
          (case ep of
             None \<Rightarrow> parse_main (Some t) bad ts
           | Some e \<Rightarrow>
               if t \<in> set subcommands then parse_sub e bad t ts else Inl (SystemExit 2))
      | HelpOption \<Rightarrow> Inl (SystemExit 0)
      | UnknownOption \<Rightarrow> parse_main ep True ts
      | _ \<Rightarrow> Inl (SystemExit 2))"

definition parse_args :: "string list \<Rightarrow> pyexc + namespace" where
  "parse_args argv = parse_main None False argv"

subsection \<open>Running a command (run\_cli)\<close>

text \<open>The two output streams; \<open>print\<close> appends its text and a newline.\<close>

record io =
  stdout :: string
  stderr :: string

definition print_stdout :: "string \<Rightarrow> io \<Rightarrow> io" where
  "print_stdout s out = out\<lparr>stdout := stdout out @ s @ [CHR 0x0A]\<rparr>"

definition print_stderr :: "string \<Rightarrow> io \<Rightarrow> io" where
  "print_stderr s out = out\<lparr>stderr := stderr out @ s @ [CHR 0x0A]\<rparr>"

text \<open>Reading an attribute of the namespace; one that was never set raises.\<close>

definition attr :: "string \<Rightarrow> 'a option \<Rightarrow> pyexc + 'a" where
  "attr name v =
     (case v of None \<Rightarrow> Inl (Foreign (OtherError ''AttributeError'' name)) | Some x \<Rightarrow> Inr x)"

text \<open>
  Each branch of \<open>run_cli\<close> computes what it prints, which may raise, then prints it to
  standard output and returns 0.
\<close>

definition print_and_return :: "pyexc + string \<Rightarrow> io \<Rightarrow> (pyexc + int) \<times> io" where
  "print_and_return text out =
     (case text of Inl e \<Rightarrow> (Inl e, out) | Inr s \<Rightarrow> (Inr 0, print_stdout s out))"

definition dispatch :: "env \<Rightarrow> evmclient \<Rightarrow> namespace \<Rightarrow> io \<Rightarrow> (pyexc + int) \<times> io" where
  "dispatch ev client args out =
     (if command args = ''info'' then
        print_and_return
          (exc_bind (foreign (chain_id client)) (\<lambda>cid.
           exc_bind (foreign (block_number client)) (\<lambda>bn.
           foreign (json_dumps ev
             (PDict [(PStr ''chain_id'', PInt cid), (PStr ''block_number'', PInt bn)]))))) out
      else if command args = ''balance'' then
        print_and_return
          (exc_bind (attr ''address'' (address args)) (\<lambda>addr.
           exc_bind (attr ''block_identifier'' (block_identifier args)) (\<lambda>blk.
           exc_bind (foreign (get_balance client addr blk)) (\<lambda>b.
           foreign (json_dumps ev
             (PDict [(PStr ''wei'', PStr (str_int (wei b))),
                     (PStr ''ether'', PStr (str_decimal ev (ether b)))])))))) out
      else if command args = ''tx-count'' then
        print_and_return
          (exc_bind (attr ''address'' (address args)) (\<lambda>addr.
           exc_bind (attr ''block_identifier'' (block_identifier args)) (\<lambda>blk.
           exc_bind (foreign (get_transaction_count client addr blk)) (\<lambda>count.
           Inr (str_int count))))) out
      else if command args = ''call'' then
        print_and_return
          (exc_bind (attr ''params'' (params args)) (\<lambda>ps.
           exc_bind (attr ''method'' (method_name args)) (\<lambda>m.
           exc_bind (foreign (call_method client m (load_params (json_loads ev) ps))) (\<lambda>result.
           exc_bind (foreign (normalise result)) (\<lambda>r.
           foreign (json_dumps ev r)))))) out
      else (Inl (AssertionError (''Unknown command: '' @ command args)), out))"

text \<open>
  The body of \<open>run_cli\<close> after \<open>parse_args\<close>: the client is built, and only its
  \<open>RPCConnectionError\<close> is caught.
\<close>

definition run_parsed :: "env \<Rightarrow> namespace \<Rightarrow> io \<Rightarrow> (pyexc + int) \<times> io" where
  "run_parsed ev args out =
     (case EVMClient_init ev (endpoint args) None of
        Inl (RPCConnectionError msg) \<Rightarrow>
          (Inr 1, print_stderr (''Connection failed: '' @ msg) out)
      | Inl e \<Rightarrow> (Inl e, out)
      | Inr client \<Rightarrow> dispatch ev client args out)"

text \<open>
  \<open>run_cli\<close>. What \<open>argparse\<close> itself prints before it exits (usage, help) is left out of
  the streams.
\<close>

definition run_cli :: "env \<Rightarrow> string list \<Rightarrow> io \<Rightarrow> (pyexc + int) \<times> io" where
  "run_cli ev argv out =
     (case parse_args argv of
        Inl e \<Rightarrow> (Inl e, out)
      | Inr args \<Rightarrow> run_parsed ev args out)"

subsection \<open>A provider to run the model on\<close>

text \<open>
  A reachable provider at one URL and an unreachable one at every other, with fixed
  answers; a decoder that knows the document \<open>42\<close> only; a serialiser that rejects
  objects.
\<close>

definition example_api :: web3_api where
  "example_api =
     \<lparr>is_connected = True,
      eth_chain_id = Inr 1,
      eth_block_number = Inr 100,
      eth_get_balance = (\<lambda>a b. Inr 1500000000000000000),
      eth_get_transaction_count = (\<lambda>a b. Inr 7),
      request_blocking = (\<lambda>m ps. Inr (PList (PBytes [1, 171] # ps))),
      keccak = (\<lambda>s. map (\<lambda>c. of_char c mod 16) (rev s))\<rparr>"

definition example_env :: env where
  "example_env =
     \<lparr>http_provider = (\<lambda>url kwargs.
        if url = ''http://localhost:8545'' then example_api
        else example_api\<lparr>is_connected := False\<rparr>),
      json_loads = (\<lambda>s. if s = ''42'' then Some (PInt 42) else None),
      json_dumps = (\<lambda>v. case v of
          PObject i h \<Rightarrow> Inl (TypeError ''Object is not JSON serializable'')
        | _ \<Rightarrow> Inr ''{}''),
      str_decimal = (\<lambda>d. str_int (coefficient d) @ ''E'' @ str_int (exponent d))\<rparr>"

section \<open>Properties of the built-in hex methods\<close>

lemma hexdigit_in: "hexdigit n \<in> set ''0123456789abcdef''"
  unfolding hexdigit_def by (rule nth_mem) simp

lemma hexval_hexdigit: "n < 16 \<Longrightarrow> hexval (hexdigit n) = Some n"
  unfolding hexval_def hexdigit_def
  using map_of_zip_nth [of "''0123456789abcdef''" "[0..<16]" n] by simp

lemma unhex_bytes_hex: "unhex (bytes_hex bs) = Some bs"
proof (induction bs)
  case Nil
  show ?case by (simp add: bytes_hex_def)
next
  case (Cons b bs)
  have hi: "unat b div 16 < 16"
    using unsigned_less [of b, where ?'a = nat] by simp
  have "16 * (unat b div 16) + unat b mod 16 = unat b" by simp
  then have whole: "(of_nat (16 * (unat b div 16) + unat b mod 16) :: 8 word) = b"
    by simp
  from Cons hi whole show ?case
    by (simp add: bytes_hex_def byte_hex_def hexval_hexdigit)
qed

lemma length_bytes_hex: "length (bytes_hex bs) = 2 * length bs"
  by (induction bs) (simp_all add: bytes_hex_def byte_hex_def)

lemma set_bytes_hex: "set (bytes_hex bs) \<subseteq> set ''0123456789abcdef''"
  unfolding bytes_hex_def byte_hex_def using hexdigit_in by auto

lemma bytes_hex_no_prefix: "take 2 (bytes_hex bs) \<noteq> ''0x''"
proof
  assume a: "take 2 (bytes_hex bs) = ''0x''"
  have "set (take 2 (bytes_hex bs)) \<subseteq> set (bytes_hex bs)" by (rule set_take_subset)
  with a set_bytes_hex [of bs] have "CHR ''x'' \<in> set ''0123456789abcdef''" by auto
  then show False by simp
qed

section \<open>Properties of result normalisation\<close>

lemma normalise_stable:
  "hex_stable v \<Longrightarrow> normalise v = Inr w \<Longrightarrow> normalise w = Inr w"
  "hex_stable_seq xs \<Longrightarrow> normalise_seq xs = Inr ys \<Longrightarrow> normalise_seq ys = Inr ys"
proof (induction v and xs arbitrary: w and ys rule: hex_stable_hex_stable_seq.induct)
  case (1 xs)
  then show ?case by (auto split: sum.splits)
next
  case (2 xs)
  then show ?case by (auto split: sum.splits)
next
  case (3 i r)
  then show ?case by (auto simp: hex_or_self_def)
qed (auto simp: hex_or_self_def split: sum.splits if_splits)

text \<open>
  C1, as the code has it. Normalisation is idempotent on every value in which each
  \<open>hex\<close> method that it calls on an object returns a value that normalisation leaves
  unchanged: normalising the result of \<open>_normalise(v)\<close> gives that result again, and where
  \<open>_normalise(v)\<close> raises, both sides raise the same exception. Every value built from
  \<open>None\<close>, booleans, integers, floats, strings, byte sequences, lists, tuples, plain
  mappings and \<open>AttributeDict\<close>s is such a value.
\<close>

theorem normalise_idempotent_on_stable:
  "hex_stable v \<Longrightarrow> exc_bind (normalise v) normalise = normalise v"
  by (cases "normalise v") (simp_all add: exc_bind_def normalise_stable(1))

theorem normalise_idempotent_on_stable_witness:
  "hex_stable (PList [PBytes [1, 171], PAttrDict [(PStr ''k'', PFloat 0x3FF8000000000000)],
      PObject 0 (HexReturns (PStr ''0x01''))]) \<and>
   exc_bind (normalise (PList [PBytes [1, 171], PAttrDict [(PStr ''k'', PFloat 0x3FF8000000000000)],
      PObject 0 (HexReturns (PStr ''0x01''))])) normalise =
   Inr (PList [PStr ''01ab'', PDict [(PStr ''k'', PStr ''0x1.8000000000000p+0'')], PStr ''0x01''])"
proof -
  let ?v = "PList [PBytes [1, 171], PAttrDict [(PStr ''k'', PFloat 0x3FF8000000000000)],
      PObject 0 (HexReturns (PStr ''0x01''))]"
  have s: "hex_stable ?v" by (simp add: hex_or_self_def)
  have n: "normalise ?v =
    Inr (PList [PStr ''01ab'', PDict [(PStr ''k'', PStr ''0x1.8000000000000p+0'')], PStr ''0x01''])"
    by (simp add: hex_or_self_def bytes_hex_def byte_hex_def hexdigit_def float_hex_def
        hex13_def digit_char_def upt_rec)
  from normalise_idempotent_on_stable [OF s] s n show ?thesis by simp
qed

text \<open>
  C1 as stated fails: an object whose \<open>hex()\<close> returns the byte sequence \<open>b'\x01'\<close>
  normalises to that byte sequence, and normalising the byte sequence gives the string
  \<open>'01'\<close>.
\<close>

theorem normalise_not_idempotent:
  "exc_bind (normalise (PObject 0 (HexReturns (PBytes [1])))) normalise \<noteq>
   normalise (PObject 0 (HexReturns (PBytes [1])))"
  by (simp add: exc_bind_def hex_or_self_def)

text \<open>
  C2, as the code has it. For a value that reaches the probe, that is an object that is
  no \<open>AttributeDict\<close>, list, tuple or \<open>bytes\<close> instance, with a callable \<open>hex\<close> attribute
  whose call raises: normalisation ignores the failure and returns the original value
  when the exception is a \<open>TypeError\<close>; an exception of any other class is not caught and
  leaves \<open>_normalise\<close>. (For a \<open>bytes\<close> instance \<open>value.hex()\<close> is called before the probe,
  outside the \<open>try\<close>, so this says nothing about an exception raised there.)
\<close>

theorem normalise_hex_raises:
  "normalise (PObject i (HexRaises e)) =
     (if is_TypeError e then Inr (PObject i (HexRaises e)) else Inl e)"
  by (simp add: hex_or_self_def)

theorem normalise_hex_raises_witness:
  "normalise (PObject 7 (HexRaises (TypeError ''unbound method''))) =
     Inr (PObject 7 (HexRaises (TypeError ''unbound method''))) \<and>
   normalise (PObject 7 (HexRaises (OtherError ''ValueError'' ''bad''))) =
     Inl (OtherError ''ValueError'' ''bad'')"
  using normalise_hex_raises [of 7 "TypeError ''unbound method''"]
    normalise_hex_raises [of 7 "OtherError ''ValueError'' ''bad''"]
  by simp

text \<open>
  C2 as stated fails: when \<open>hex()\<close> raises a \<open>ValueError\<close>, normalisation does not return
  the original value.
\<close>

theorem normalise_hex_value_error_not_ignored:
  "normalise (PObject 7 (HexRaises (OtherError ''ValueError'' ''bad''))) \<noteq>
     Inr (PObject 7 (HexRaises (OtherError ''ValueError'' ''bad'')))"
  by (simp add: hex_or_self_def)

text \<open>
  C3. A byte sequence normalises to its lowercase hexadecimal text: two characters for
  each octet, all of them among \<open>0\<close>..\<open>9\<close> and \<open>a\<close>..\<open>f\<close>, reading back to the same octets,
  and with no \<open>0x\<close> in front.
\<close>

theorem normalise_bytes_lowercase_hex:
  "normalise (PBytes bs) = Inr (PStr (bytes_hex bs)) \<and>
   length (bytes_hex bs) = 2 * length bs \<and>
   set (bytes_hex bs) \<subseteq> set ''0123456789abcdef'' \<and>
   unhex (bytes_hex bs) = Some bs \<and>
   take 2 (bytes_hex bs) \<noteq> ''0x''"
  using length_bytes_hex set_bytes_hex unhex_bytes_hex bytes_hex_no_prefix by simp

theorem normalise_bytes_lowercase_hex_witness:
  "normalise (PBytes [0, 171, 255]) = Inr (PStr ''00abff'') \<and>
   unhex ''00abff'' = Some [0, 171, 255]"
proof -
  have h: "bytes_hex [0, 171, 255] = ''00abff''"
    by (simp add: bytes_hex_def byte_hex_def hexdigit_def)
  from normalise_bytes_lowercase_hex [of "[0, 171, 255]"] show ?thesis
    unfolding h by simp
qed

text \<open>
  C9, as the code has it. A float is not passed through: the probe finds the float type's
  \<open>hex\<close> method, and \<open>_normalise\<close> returns the string \<open>float.hex()\<close> gives. For 1.5 that
  string is \<open>0x1.8000000000000p+0\<close>, with all thirteen digits of the fraction.
\<close>

theorem normalise_float_hex:
  "normalise (PFloat w) = Inr (PStr (float_hex w)) \<and>
   normalise (PFloat w) \<noteq> Inr (PFloat w) \<and>
   float_hex 0x3FF8000000000000 = ''0x1.8000000000000p+0''"
  by (simp add: hex_or_self_def float_hex_def hex13_def hexdigit_def digit_char_def upt_rec)

theorem normalise_float_hex_witness:
  "normalise (PFloat 0x3FF8000000000000) = Inr (PStr ''0x1.8000000000000p+0'')"
  using normalise_float_hex [of "0x3FF8000000000000"] by simp

text \<open>
  C9 as stated fails in its example: 1.5 (bit pattern \<open>3FF8000000000000\<close>) does not
  normalise to the string \<open>0x1.8p+0\<close>.
\<close>

theorem normalise_float_example_differs:
  "normalise (PFloat 0x3FF8000000000000) \<noteq> Inr (PStr ''0x1.8p+0'')"
  by (simp add: hex_or_self_def float_hex_def hex13_def hexdigit_def digit_char_def upt_rec)

lemma normalise_seq_Cons:
  "normalise_seq (x # xs) = Inr r \<longleftrightarrow>
   (\<exists>x' r'. normalise x = Inr x' \<and> normalise_seq xs = Inr r' \<and> r = x' # r')"
  by (auto split: sum.splits)

lemma normalise_seq_all2:
  "normalise_seq xs = Inr ys \<longleftrightarrow> list_all2 (\<lambda>x y. normalise x = Inr y) xs ys"
proof (induction xs arbitrary: ys)
  case Nil
  show ?case by auto
next
  case (Cons x xs)
  show ?case
    unfolding normalise_seq_Cons list_all2_Cons1 Cons.IH by force
qed

lemma normalise_items_Cons:
  "normalise_items ((k, v) # kvs) = Inr r \<longleftrightarrow>
   (\<exists>v' r'. normalise v = Inr v' \<and> normalise_items kvs = Inr r' \<and> r = (k, v') # r')"
  by (auto split: sum.splits)

lemma normalise_items_all2:
  "normalise_items kvs = Inr r \<longleftrightarrow>
   list_all2 (\<lambda>kv kv'. fst kv' = fst kv \<and> normalise (snd kv) = Inr (snd kv')) kvs r"
proof (induction kvs arbitrary: r)
  case Nil
  show ?case by auto
next
  case (Cons kv kvs)
  obtain k v where kv: "kv = (k, v)" by (cases kv)
  show ?case
    unfolding kv normalise_items_Cons list_all2_Cons1 Cons.IH by force
qed

lemma normalise_seq_nth:
  "normalise_seq xs = Inr ys \<longleftrightarrow>
   length ys = length xs \<and> (\<forall>i<length xs. normalise (xs ! i) = Inr (ys ! i))"
  unfolding normalise_seq_all2 list_all2_conv_all_nth by auto

lemma normalise_items_nth:
  "normalise_items kvs = Inr r \<longleftrightarrow>
   map fst r = map fst kvs \<and> (\<forall>i<length kvs. normalise (snd (kvs ! i)) = Inr (snd (r ! i)))"
proof -
  have "map fst r = map fst kvs \<longleftrightarrow> length r = length kvs \<and> (\<forall>i<length kvs. fst (r ! i) = fst (kvs ! i))"
    by (auto simp: list_eq_iff_nth_eq)
  then show ?thesis
    unfolding normalise_items_all2 list_all2_conv_all_nth by auto
qed

text \<open>
  C8, as the code has it. Normalisation turns an \<open>AttributeDict\<close> into a plain mapping
  with the same keys in the same order, each value normalised, and a list or tuple into
  a list or tuple of the same length, each element normalised in place: the result is
  that container exactly when every value or element normalises, and then to that
  value. A plain \<open>dict\<close> is not walked: it is returned as it is, its values not
  normalised.
\<close>

theorem normalise_containers:
  "(normalise (PAttrDict kvs) = Inr r \<longleftrightarrow>
      (\<exists>kvs'. r = PDict kvs' \<and> map fst kvs' = map fst kvs \<and>
         (\<forall>i<length kvs. normalise (snd (kvs ! i)) = Inr (snd (kvs' ! i))))) \<and>
   (normalise (PList xs) = Inr r \<longleftrightarrow>
      (\<exists>ys. r = PList ys \<and> length ys = length xs \<and>
         (\<forall>i<length xs. normalise (xs ! i) = Inr (ys ! i)))) \<and>
   (normalise (PTuple xs) = Inr r \<longleftrightarrow>
      (\<exists>ys. r = PTuple ys \<and> length ys = length xs \<and>
         (\<forall>i<length xs. normalise (xs ! i) = Inr (ys ! i)))) \<and>
   normalise (PDict kvs) = Inr (PDict kvs)"
proof (intro conjI)
  show "normalise (PDict kvs) = Inr (PDict kvs)"
    by (simp add: hex_or_self_def)
next
  show "normalise (PAttrDict kvs) = Inr r \<longleftrightarrow>
      (\<exists>kvs'. r = PDict kvs' \<and> map fst kvs' = map fst kvs \<and>
         (\<forall>i<length kvs. normalise (snd (kvs ! i)) = Inr (snd (kvs' ! i))))"
  proof -
    have "normalise (PAttrDict kvs) = Inr r \<longleftrightarrow>
        (\<exists>kvs'. r = PDict kvs' \<and> normalise_items kvs = Inr kvs')"
      by (auto split: sum.splits)
    then show ?thesis by (simp only: normalise_items_nth)
  qed
  show "normalise (PList xs) = Inr r \<longleftrightarrow>
      (\<exists>ys. r = PList ys \<and> length ys = length xs \<and>
         (\<forall>i<length xs. normalise (xs ! i) = Inr (ys ! i)))"
  proof -
    have "normalise (PList xs) = Inr r \<longleftrightarrow>
        (\<exists>ys. r = PList ys \<and> normalise_seq xs = Inr ys)"
      by (auto split: sum.splits)
    then show ?thesis by (simp only: normalise_seq_nth)
  qed
  show "normalise (PTuple xs) = Inr r \<longleftrightarrow>
      (\<exists>ys. r = PTuple ys \<and> length ys = length xs \<and>
         (\<forall>i<length xs. normalise (xs ! i) = Inr (ys ! i)))"
  proof -
    have "normalise (PTuple xs) = Inr r \<longleftrightarrow>
        (\<exists>ys. r = PTuple ys \<and> normalise_seq xs = Inr ys)"
      by (auto split: sum.splits)
    then show ?thesis by (simp only: normalise_seq_nth)
  qed
qed

text \<open>
  C8 as stated fails: the plain mapping \<open>{'a': b'\x01'}\<close> is a mapping-like object, and
  normalisation returns it with the byte sequence still in it, where the normalised
  value would be the string \<open>'01'\<close>.
\<close>

theorem normalise_plain_dict_not_walked:
  "normalise (PDict [(PStr ''a'', PBytes [1])]) = Inr (PDict [(PStr ''a'', PBytes [1])]) \<and>
   normalise (PBytes [1]) = Inr (PStr ''01'') \<and>
   normalise (PDict [(PStr ''a'', PBytes [1])]) \<noteq> Inr (PDict [(PStr ''a'', PStr ''01'')])"
  by (simp add: hex_or_self_def bytes_hex_def byte_hex_def hexdigit_def)



lemma strip_zeros_value:
  "strip_zeros c e = (c', e') \<Longrightarrow> e \<le> 0 \<Longrightarrow>
   e' \<le> 0 \<and> (of_int c' :: rat) / 10 ^ nat (- e') = of_int c / 10 ^ nat (- e)"
proof (induction c e rule: strip_zeros.induct)
  case (1 c e)
  show ?case
  proof (cases "e < 0 \<and> c mod 10 = 0")
    case True
    then have rec: "strip_zeros (c div 10) (e + 1) = (c', e')"
      using "1.prems"(1) by (simp add: strip_zeros.simps [of c e])
    from True have le: "e + 1 \<le> 0" by simp
    from "1.IH" [OF True rec le]
    have ih: "e' \<le> 0" "(of_int c' :: rat) / 10 ^ nat (- e') = of_int (c div 10) / 10 ^ nat (- (e + 1))"
      by simp_all
    from True have c: "c = 10 * (c div 10)" by presburger
    from True have n: "nat (- e) = Suc (nat (- (e + 1)))" by arith
    have "(of_int c :: rat) / 10 ^ nat (- e) = of_int (10 * (c div 10)) / 10 ^ Suc (nat (- (e + 1)))"
      using c n by simp
    also have "\<dots> = of_int (c div 10) / 10 ^ nat (- (e + 1))" by simp
    finally show ?thesis using ih by simp
  next
    case False
    then have "strip_zeros c e = (c, e)" by (simp add: strip_zeros.simps [of c e])
    with "1.prems" show ?thesis by simp
  qed
qed

lemma dec_value_from_wei: "dec_value (from_wei n) = of_int n / 10 ^ 18"
proof -
  obtain c e where s: "strip_zeros n (- 18) = (c, e)" by (cases "strip_zeros n (- 18)")
  from strip_zeros_value [OF s] have e: "e \<le> 0"
    and v: "(of_int c :: rat) / 10 ^ nat (- e) = of_int n / 10 ^ 18" by simp_all
  show ?thesis
  proof (cases "e = 0")
    case True
    with s v show ?thesis by (simp add: from_wei_def dec_value_def)
  next
    case False
    with e have "\<not> 0 \<le> e" by simp
    with s v show ?thesis by (simp add: from_wei_def dec_value_def)
  qed
qed

text \<open>
  C6. When the address checksums and the balance query returns the integer \<open>n\<close>,
  \<open>get_balance\<close> returns a \<open>Balance\<close> whose \<open>wei\<close> is \<open>n\<close> and whose \<open>ether\<close> is exactly
  \<open>n / 10^18\<close>; multiplied by \<open>10^18\<close> it gives \<open>n\<close> back. This holds for every integer
  \<open>n\<close>, so for every amount of at least 0 and every multiple of the display precision.
\<close>

theorem get_balance_ether_exact:
  assumes "to_checksum_address (keccak (web3 self)) a = Inr c"
    and "eth_get_balance (web3 self) c blk = Inr n"
  shows "\<exists>b. get_balance self a blk = Inr b \<and> wei b = n \<and>
           dec_value (ether b) = of_int n / 10 ^ 18 \<and>
           dec_value (ether b) * 10 ^ 18 = of_int n"
  using assms by (simp add: get_balance_def exc_bind_def dec_value_from_wei)

lemma to_lower_hex:
  "c \<in> set ''0123456789abcdefABCDEF'' \<Longrightarrow> to_lower c \<in> set ''0123456789abcdef''"
  by (auto simp: to_lower_def)

lemma lower_hex_cases:
  assumes "c \<in> set ''0123456789abcdef''"
  shows "to_lower c = c" and "to_lower (to_upper c) = c"
    and "to_upper c \<in> set ''0123456789abcdefABCDEF''"
    and "c \<in> set ''0123456789abcdefABCDEF''"
  using assms by (auto simp: to_lower_def to_upper_def)

lemma checksum_same_digits:
  "is_hex_address a \<Longrightarrow> is_hex_address a' \<Longrightarrow>
   map to_lower (remove_0x_prefix a') = map to_lower (remove_0x_prefix a) \<Longrightarrow>
   to_checksum_address h a' = to_checksum_address h a"
  by (simp add: to_checksum_address_def)

lemma checksum_result:
  assumes "is_hex_address a" and "to_checksum_address h a = Inr c"
  shows "is_hex_address c"
    and "map to_lower (remove_0x_prefix c) = map to_lower (remove_0x_prefix a)"
proof -
  define norm where "norm = map to_lower (remove_0x_prefix a)"
  define g where "g = (\<lambda>i. if 8 \<le> nibble (h norm) i then to_upper (norm ! i) else norm ! i)"
  from assms(1) have len: "length norm = 40"
    and low: "\<forall>i<40. norm ! i \<in> set ''0123456789abcdef''"
    using to_lower_hex by (auto simp: is_hex_address_def norm_def list_all_length)
  from assms have c: "c = ''0x'' @ map g [0..<40]"
    unfolding g_def norm_def by (auto simp: to_checksum_address_def Let_def)
  then have r: "remove_0x_prefix c = map g [0..<40]"
    by (simp add: remove_0x_prefix_def)
  have gl: "\<forall>i<40. to_lower (g i) = norm ! i"
    using low lower_hex_cases(1,2) by (simp add: g_def)
  have gh: "\<forall>i<40. g i \<in> set ''0123456789abcdefABCDEF''"
    using low lower_hex_cases(3,4) by (simp add: g_def)
  from gh show "is_hex_address c"
    unfolding is_hex_address_def r by (simp add: list_all_length)
  have "map to_lower (map g [0..<40]) = map (\<lambda>i. norm ! i) [0..<40]"
    using gl by simp
  also have "\<dots> = norm"
    using map_nth [of norm] len by simp
  finally show "map to_lower (remove_0x_prefix c) = map to_lower (remove_0x_prefix a)"
    unfolding r norm_def .
qed

lemma checksum_idempotent:
  assumes "is_hex_address a" and "to_checksum_address h a = Inr c"
  shows "to_checksum_address h c = Inr c"
  using checksum_same_digits [OF assms(1) checksum_result(1) [OF assms] checksum_result(2) [OF assms]]
    assms(2) by simp

lemma checksum_defined:
  "is_hex_address a \<Longrightarrow> \<exists>c. to_checksum_address h a = Inr c"
  by (simp add: to_checksum_address_def Let_def)

text \<open>
  C7. For a valid address (forty hexadecimal digits in any casing, with or without
  \<open>0x\<close>) the checksummed form \<open>c\<close> exists; \<open>get_balance\<close> and \<open>get_transaction_count\<close> both
  pass \<open>c\<close>, not the address as given, to the RPC query; checksumming \<open>c\<close> again gives \<open>c\<close>;
  and every other casing of the same digits has the same checksummed form.
\<close>

theorem queries_use_same_checksum:
  assumes "is_hex_address a"
  shows "\<exists>c. to_checksum_address (keccak (web3 self)) a = Inr c \<and>
           get_balance self a blk =
             exc_bind (eth_get_balance (web3 self) c blk)
               (\<lambda>n. Inr \<lparr>wei = n, ether = from_wei n\<rparr>) \<and>
           get_transaction_count self a blk' = eth_get_transaction_count (web3 self) c blk' \<and>
           to_checksum_address (keccak (web3 self)) c = Inr c \<and>
           (\<forall>a'. is_hex_address a' \<and>
                 map to_lower (remove_0x_prefix a') = map to_lower (remove_0x_prefix a) \<longrightarrow>
                 to_checksum_address (keccak (web3 self)) a' = Inr c)"
proof -
  from checksum_defined [OF assms] obtain c
    where c: "to_checksum_address (keccak (web3 self)) a = Inr c" by blast
  have "get_balance self a blk =
      exc_bind (eth_get_balance (web3 self) c blk) (\<lambda>n. Inr \<lparr>wei = n, ether = from_wei n\<rparr>)"
    using c by (simp add: get_balance_def exc_bind_def)
  moreover have "get_transaction_count self a blk' = eth_get_transaction_count (web3 self) c blk'"
    using c by (simp add: get_transaction_count_def exc_bind_def)
  moreover have "to_checksum_address (keccak (web3 self)) c = Inr c"
    using checksum_idempotent [OF assms c] .
  moreover have "\<forall>a'. is_hex_address a' \<and>
      map to_lower (remove_0x_prefix a') = map to_lower (remove_0x_prefix a) \<longrightarrow>
      to_checksum_address (keccak (web3 self)) a' = Inr c"
    using checksum_same_digits [OF assms] c by simp
  ultimately show ?thesis using c by blast
qed

lemma example_address:
  "is_hex_address ''0xde0B295669a9FD93d5F28D9Ec85E40f4cb697BAe''"
  by (simp add: is_hex_address_def remove_0x_prefix_def)

lemma example_checksum:
  "to_checksum_address (keccak example_api) ''0xde0B295669a9FD93d5F28D9Ec85E40f4cb697BAe'' =
   Inr ''0xde0b295669a9fd93d5f28d9ec85e40F4cb697bae''"
  by (simp add: to_checksum_address_def is_hex_address_def remove_0x_prefix_def Let_def
      example_api_def nibble_def to_lower_def to_upper_def upt_rec)

lemma parse_sub_command:
  "parse_sub ep bad name rest = Inr args \<Longrightarrow>
   command args = name \<and> endpoint args = ep \<and> name \<in> set subcommands"
  unfolding parse_sub_def Let_def subcommands_def
  by (auto split: if_splits sum.splits list.splits)

lemma parse_main_command:
  "parse_main ep bad ts = Inr args \<Longrightarrow> command args \<in> set subcommands"
proof (induction ts arbitrary: ep bad)
  case Nil
  then show ?case by simp
next
  case (Cons t ts)
  then show ?case
    by (auto split: token.splits option.splits if_splits dest: parse_sub_command)
qed

lemma parse_args_command:
  "parse_args argv = Inr args \<Longrightarrow> command args \<in> set subcommands"
  unfolding parse_args_def by (rule parse_main_command)

lemma init_cases:
  "EVMClient_init ev url None =
     (if is_connected (http_provider ev url [])
      then Inr \<lparr>web3 = http_provider ev url []\<rparr>
      else Inl (RPCConnectionError
        ''Unable to connect to the RPC endpoint. Check the URL and network connectivity.''))"
  by (simp add: EVMClient_init_def Let_def)

lemma rof_foreign: "raises_only_foreign (foreign m)"
  by (cases m) (simp_all add: raises_only_foreign_def foreign_def)

lemma rof_attr: "raises_only_foreign (attr name v)"
  by (cases v) (simp_all add: raises_only_foreign_def attr_def)

lemma rof_Inr: "raises_only_foreign (Inr x)"
  by (simp add: raises_only_foreign_def)

lemma rof_bind:
  "raises_only_foreign m \<Longrightarrow> (\<And>x. raises_only_foreign (k x)) \<Longrightarrow>
   raises_only_foreign (exc_bind m k)"
  by (cases m) (simp_all add: raises_only_foreign_def exc_bind_def)

lemma rof_print_and_return:
  assumes "raises_only_foreign t"
  shows "fst (print_and_return t out) = Inr 0 \<or>
         (\<exists>f. fst (print_and_return t out) = Inl (Foreign f))"
proof (cases t)
  case (Inl e)
  with assms show ?thesis
    by (cases e) (simp_all add: raises_only_foreign_def print_and_return_def)
next
  case (Inr s)
  then show ?thesis by (simp add: print_and_return_def)
qed

lemma dispatch_outcome:
  assumes "command args \<in> set subcommands"
  shows "fst (dispatch ev client args out) = Inr 0 \<or>
         (\<exists>f. fst (dispatch ev client args out) = Inl (Foreign f))"
proof -
  from assms consider "command args = ''info''" | "command args = ''balance''"
    | "command args = ''tx-count''" | "command args = ''call''"
    by (auto simp: subcommands_def)
  then show ?thesis
  proof cases
    case 1
    then show ?thesis
      unfolding dispatch_def
      by simp (intro rof_print_and_return rof_bind rof_foreign)
  next
    case 2
    then show ?thesis
      unfolding dispatch_def
      by simp (intro rof_print_and_return rof_bind rof_foreign rof_attr)
  next
    case 3
    then show ?thesis
      unfolding dispatch_def
      by simp (intro rof_print_and_return rof_bind rof_foreign rof_attr rof_Inr)
  next
    case 4
    then show ?thesis
      unfolding dispatch_def
      by simp (intro rof_print_and_return rof_bind rof_foreign rof_attr)
  qed
qed

lemma run_parsed_offline:
  "\<not> is_connected (http_provider ev (endpoint args) []) \<Longrightarrow>
   run_parsed ev args out =
     (Inr 1, print_stderr (''Connection failed: '' @
        ''Unable to connect to the RPC endpoint. Check the URL and network connectivity.'') out)"
  by (simp add: run_parsed_def init_cases)

lemma run_parsed_online:
  "is_connected (http_provider ev (endpoint args) []) \<Longrightarrow>
   run_parsed ev args out = dispatch ev \<lparr>web3 = http_provider ev (endpoint args) []\<rparr> args out"
  by (simp add: run_parsed_def init_cases)

text \<open>
  C5. For an accepted argument vector: when the endpoint does not answer the liveness
  probe, building the client fails with \<open>RPCConnectionError\<close>, and \<open>run_cli\<close> returns 1
  with the line \<open>Connection failed: \<close> and the error's message added to standard error and
  standard output left as it was; when the endpoint answers, every run of \<open>run_cli\<close> that
  returns, returns 0.
\<close>

theorem run_cli_exit_status:
  assumes "parse_args argv = Inr args"
  shows "(\<not> is_connected (http_provider ev (endpoint args) []) \<longrightarrow>
           (\<exists>msg. EVMClient_init ev (endpoint args) None = Inl (RPCConnectionError msg) \<and>
              run_cli ev argv out =
                (Inr 1, out\<lparr>stderr := stderr out @ ''Connection failed: '' @ msg @ [CHR 0x0A]\<rparr>) \<and>
              stdout (snd (run_cli ev argv out)) = stdout out)) \<and>
         (is_connected (http_provider ev (endpoint args) []) \<longrightarrow>
           (\<forall>c. fst (run_cli ev argv out) = Inr c \<longrightarrow> c = 0))"
proof (intro conjI impI)
  assume off: "\<not> is_connected (http_provider ev (endpoint args) [])"
  then show "\<exists>msg. EVMClient_init ev (endpoint args) None = Inl (RPCConnectionError msg) \<and>
      run_cli ev argv out =
        (Inr 1, out\<lparr>stderr := stderr out @ ''Connection failed: '' @ msg @ [CHR 0x0A]\<rparr>) \<and>
      stdout (snd (run_cli ev argv out)) = stdout out"
    using assms run_parsed_offline [OF off, of out]
    by (simp add: run_cli_def init_cases print_stderr_def)
next
  assume on: "is_connected (http_provider ev (endpoint args) [])"
  show "\<forall>c. fst (run_cli ev argv out) = Inr c \<longrightarrow> c = 0"
    using assms run_parsed_online [OF on, of out]
      dispatch_outcome [OF parse_args_command [OF assms], of ev
        "\<lparr>web3 = http_provider ev (endpoint args) []\<rparr>" out]
    by (auto simp: run_cli_def)
qed

text \<open>
  C10, as the code has it. For every argument vector the parser accepts, the command is
  one of \<open>info\<close>, \<open>balance\<close>, \<open>tx-count\<close> and \<open>call\<close>, and \<open>run_cli\<close> never leaves with the
  \<open>AssertionError\<close> of its last line: it returns 1 when the connection fails, and otherwise
  runs one of the four branches, which returns 0 or lets an exception of the client
  library, of \<open>json\<close> or of a \<open>hex\<close> method pass.
\<close>

theorem run_cli_unknown_command_unreachable:
  assumes "parse_args argv = Inr args"
  shows "command args \<in> set subcommands \<and>
         (\<forall>m. fst (run_cli ev argv out) \<noteq> Inl (AssertionError m)) \<and>
         (\<not> is_connected (http_provider ev (endpoint args) []) \<longrightarrow>
            fst (run_cli ev argv out) = Inr 1) \<and>
         (is_connected (http_provider ev (endpoint args) []) \<longrightarrow>
            run_cli ev argv out =
              dispatch ev \<lparr>web3 = http_provider ev (endpoint args) []\<rparr> args out \<and>
            (fst (run_cli ev argv out) = Inr 0 \<or>
             (\<exists>f. fst (run_cli ev argv out) = Inl (Foreign f))))"
proof -
  have cmd: "command args \<in> set subcommands"
    using assms by (rule parse_args_command)
  have r: "run_cli ev argv out = run_parsed ev args out"
    using assms by (simp add: run_cli_def)
  show ?thesis
  proof (cases "is_connected (http_provider ev (endpoint args) [])")
    case True
    from run_parsed_online [OF True, of out]
      dispatch_outcome [OF cmd, of ev "\<lparr>web3 = http_provider ev (endpoint args) []\<rparr>" out]
    show ?thesis using cmd True r by auto
  next
    case False
    from run_parsed_offline [OF False, of out]
    show ?thesis using cmd False r by auto
  qed
qed

text \<open>
  C10 as stated fails: the argument vector \<open>http://localhost:8545 balance zz\<close> is
  accepted, and against a reachable provider \<open>run_cli\<close> returns no integer: the
  invalid-address error of the checksum conversion leaves it uncaught.
\<close>

theorem run_cli_invalid_address_raises:
  "parse_args [''http://localhost:8545'', ''balance'', ''zz''] =
     Inr \<lparr>endpoint = ''http://localhost:8545'', command = ''balance'', address = Some ''zz'',
          block_identifier = Some ''latest'', method_name = None, params = None\<rparr> \<and>
   fst (run_cli example_env [''http://localhost:8545'', ''balance'', ''zz'']
          \<lparr>stdout = [], stderr = []\<rparr>) =
     Inl (Foreign (OtherError ''InvalidAddress'' ''zz''))"
  by code_simp

section \<open>The theorems on the sample provider\<close>

theorem normalise_containers_witness:
  "normalise (PList [PBytes [1], PInt 2]) = Inr (PList [PStr ''01'', PInt 2]) \<and>
   normalise (PAttrDict [(PStr ''a'', PBytes [1])]) = Inr (PDict [(PStr ''a'', PStr ''01'')])"
proof -
  have b: "normalise (PBytes [1]) = Inr (PStr ''01'')"
    by (simp add: bytes_hex_def byte_hex_def hexdigit_def)
  have i: "normalise (PInt 2) = Inr (PInt 2)"
    by (simp add: hex_or_self_def)
  have l: "\<exists>ys. PList [PStr ''01'', PInt 2] = PList ys \<and>
      length ys = length [PBytes [1], PInt 2] \<and>
      (\<forall>i<length [PBytes [1], PInt 2]. normalise ([PBytes [1], PInt 2] ! i) = Inr (ys ! i))"
    using b i by (intro exI [of _ "[PStr ''01'', PInt 2]"]) (simp add: All_less_Suc)
  have d: "\<exists>kvs'. PDict [(PStr ''a'', PStr ''01'')] = PDict kvs' \<and>
      map fst kvs' = map fst [(PStr ''a'', PBytes [1])] \<and>
      (\<forall>i<length [(PStr ''a'', PBytes [1])].
         normalise (snd ([(PStr ''a'', PBytes [1])] ! i)) = Inr (snd (kvs' ! i)))"
    using b by (intro exI [of _ "[(PStr ''a'', PStr ''01'')]"]) simp
  from l d
    normalise_containers [of "[]" "PList [PStr ''01'', PInt 2]" "[PBytes [1], PInt 2]"]
    normalise_containers [of "[(PStr ''a'', PBytes [1])]" "PDict [(PStr ''a'', PStr ''01'')]" "[]"]
  show ?thesis by blast
qed


theorem get_balance_ether_exact_witness:
  "\<exists>b. get_balance \<lparr>web3 = example_api\<rparr> ''0xde0B295669a9FD93d5F28D9Ec85E40f4cb697BAe'' ''latest'' =
         Inr b \<and>
       wei b = 1500000000000000000 \<and>
       dec_value (ether b) * 10 ^ 18 = 1500000000000000000"
proof -
  have c: "to_checksum_address (keccak (web3 \<lparr>web3 = example_api\<rparr>))
      ''0xde0B295669a9FD93d5F28D9Ec85E40f4cb697BAe'' =
      Inr ''0xde0b295669a9fd93d5f28d9ec85e40F4cb697bae''"
    using example_checksum by simp
  have n: "eth_get_balance (web3 \<lparr>web3 = example_api\<rparr>)
      ''0xde0b295669a9fd93d5f28d9ec85e40F4cb697bae'' ''latest'' = Inr 1500000000000000000"
    by (simp add: example_api_def)
  from get_balance_ether_exact [OF c n] show ?thesis by auto
qed

theorem queries_use_same_checksum_witness:
  "to_checksum_address (keccak example_api) ''0xde0b295669a9fd93d5f28d9ec85e40F4cb697bae'' =
     Inr ''0xde0b295669a9fd93d5f28d9ec85e40F4cb697bae'' \<and>
   get_transaction_count \<lparr>web3 = example_api\<rparr> ''0xde0B295669a9FD93d5F28D9Ec85E40f4cb697BAe''
     ''latest'' = Inr 7"
proof -
  from queries_use_same_checksum [OF example_address, of "\<lparr>web3 = example_api\<rparr>" "''latest''" "''latest''"]
  obtain c where c: "to_checksum_address (keccak example_api)
        ''0xde0B295669a9FD93d5F28D9Ec85E40f4cb697BAe'' = Inr c"
    and tx: "get_transaction_count \<lparr>web3 = example_api\<rparr>
        ''0xde0B295669a9FD93d5F28D9Ec85E40f4cb697BAe'' ''latest'' =
        eth_get_transaction_count example_api c ''latest''"
    and idem: "to_checksum_address (keccak example_api) c = Inr c"
    by auto
  from c example_checksum have "c = ''0xde0b295669a9fd93d5f28d9ec85e40F4cb697bae''" by simp
  moreover have "eth_get_transaction_count example_api c ''latest'' = Inr 7"
    by (simp add: example_api_def)
  ultimately show ?thesis using tx idem by simp
qed

lemma parse_info_example:
  "parse_args [''http://localhost:8545'', ''info''] =
     Inr \<lparr>endpoint = ''http://localhost:8545'', command = ''info'', address = None,
          block_identifier = None, method_name = None, params = None\<rparr>"
  by code_simp

lemma parse_info_offline_example:
  "parse_args [''http://nowhere'', ''info''] =
     Inr \<lparr>endpoint = ''http://nowhere'', command = ''info'', address = None,
          block_identifier = None, method_name = None, params = None\<rparr>"
  by code_simp

lemma run_info_example:
  "run_cli example_env [''http://localhost:8545'', ''info''] \<lparr>stdout = [], stderr = []\<rparr> =
     (Inr 0, \<lparr>stdout = ''{}'' @ [CHR 0x0A], stderr = []\<rparr>)"
  by code_simp

theorem run_cli_exit_status_witness:
  "fst (run_cli example_env [''http://nowhere'', ''info''] \<lparr>stdout = [], stderr = []\<rparr>) = Inr 1 \<and>
   stdout (snd (run_cli example_env [''http://nowhere'', ''info''] \<lparr>stdout = [], stderr = []\<rparr>)) = [] \<and>
   take 19 (stderr (snd (run_cli example_env [''http://nowhere'', ''info'']
     \<lparr>stdout = [], stderr = []\<rparr>))) = ''Connection failed: '' \<and>
   fst (run_cli example_env [''http://localhost:8545'', ''info''] \<lparr>stdout = [], stderr = []\<rparr>) = Inr 0"
proof -
  have off: "\<not> is_connected (http_provider example_env
      (endpoint \<lparr>endpoint = ''http://nowhere'', command = ''info'', address = None,
          block_identifier = None, method_name = None, params = None\<rparr>) [])"
    by (simp add: example_env_def example_api_def)
  from run_cli_exit_status [OF parse_info_offline_example, of example_env
      "\<lparr>stdout = [], stderr = []\<rparr>"] off
  obtain msg where "run_cli example_env [''http://nowhere'', ''info''] \<lparr>stdout = [], stderr = []\<rparr> =
      (Inr 1, \<lparr>stdout = [], stderr = ''Connection failed: '' @ msg @ [CHR 0x0A]\<rparr>)"
    by auto
  then show ?thesis using run_info_example by simp
qed

theorem run_cli_unknown_command_unreachable_witness:
  "command \<lparr>endpoint = ''http://localhost:8545'', command = ''info'', address = None,
          block_identifier = None, method_name = None, params = None\<rparr> \<in> set subcommands \<and>
   run_cli example_env [''http://localhost:8545'', ''info''] \<lparr>stdout = [], stderr = []\<rparr> =
     dispatch example_env \<lparr>web3 = example_api\<rparr>
       \<lparr>endpoint = ''http://localhost:8545'', command = ''info'', address = None,
          block_identifier = None, method_name = None, params = None\<rparr>
       \<lparr>stdout = [], stderr = []\<rparr>"
proof -
  have on: "is_connected (http_provider example_env
      (endpoint \<lparr>endpoint = ''http://localhost:8545'', command = ''info'', address = None,
          block_identifier = None, method_name = None, params = None\<rparr>) [])"
    by (simp add: example_env_def example_api_def)
  have p: "http_provider example_env ''http://localhost:8545'' [] = example_api"
    by (simp add: example_env_def)
  from run_cli_unknown_command_unreachable [OF parse_info_example, of example_env
      "\<lparr>stdout = [], stderr = []\<rparr>"] on p
  show ?thesis by simp
qed

end
